theory Spec2Isabelle
  imports Main
begin

unbundle bit_operations_syntax

section \<open>Data model of \<^verbatim>\<open>src/pki.c\<close>\<close>

text \<open>
  A C byte (\<^verbatim>\<open>char\<close>, \<^verbatim>\<open>unsigned char\<close>) is a \<^typ>\<open>char\<close>, which in HOL is exactly
  an 8-bit value. A C string is modelled by its content, the bytes before the
  terminating NUL; \<^verbatim>\<open>strcmp(a, b) == 0\<close> is then equality of the contents.
\<close>

type_synonym byte = char

datatype ssh_keytypes_e =
    SSH_KEYTYPE_UNKNOWN
  | SSH_KEYTYPE_DSS
  | SSH_KEYTYPE_RSA
  | SSH_KEYTYPE_RSA1
  | SSH_KEYTYPE_ECDSA

text \<open>
  \<^verbatim>\<open>ssh_key_type_to_char\<close>: the canonical wire name of a key type, \<^verbatim>\<open>NULL\<close>
  (here \<open>None\<close>) for \<^verbatim>\<open>SSH_KEYTYPE_UNKNOWN\<close>.
\<close>

fun ssh_key_type_to_char :: "ssh_keytypes_e \<Rightarrow> string option" where
  "ssh_key_type_to_char SSH_KEYTYPE_DSS = Some ''ssh-dss''"
| "ssh_key_type_to_char SSH_KEYTYPE_RSA = Some ''ssh-rsa''"
| "ssh_key_type_to_char SSH_KEYTYPE_RSA1 = Some ''ssh-rsa1''"
| "ssh_key_type_to_char SSH_KEYTYPE_ECDSA = Some ''ssh-ecdsa''"
| "ssh_key_type_to_char SSH_KEYTYPE_UNKNOWN = None"

text \<open>
  \<^verbatim>\<open>ssh_key_type_from_name\<close>, branch by branch and in the order of the source. The
  seventh branch compares the name with the five ECDSA names and has an empty body:
  control falls through to the final \<^verbatim>\<open>return SSH_KEYTYPE_UNKNOWN\<close>.
\<close>

definition ssh_key_type_from_name :: "string \<Rightarrow> ssh_keytypes_e" where
  "ssh_key_type_from_name name =
     (if name = ''rsa1'' then SSH_KEYTYPE_RSA1
      else if name = ''rsa'' then SSH_KEYTYPE_RSA
      else if name = ''dsa'' then SSH_KEYTYPE_DSS
      else if name = ''ssh-rsa1'' then SSH_KEYTYPE_RSA1
      else if name = ''ssh-rsa'' then SSH_KEYTYPE_RSA
      else if name = ''ssh-dss'' then SSH_KEYTYPE_DSS
      else if name = ''ssh-ecdsa''
              \<or> name = ''ecdsa''
              \<or> name = ''ecdsa-sha2-nistp256''
              \<or> name = ''ecdsa-sha2-nistp384''
              \<or> name = ''ecdsa-sha2-nistp521'' then SSH_KEYTYPE_UNKNOWN
      else SSH_KEYTYPE_UNKNOWN)"

subsection \<open>The key structure and its flags\<close>

text \<open>
  Modelled from the spec: the flag macros of \<^verbatim>\<open>libssh/pki.h\<close>, which is not among the
  sources. The spec's \<open>halves_present\<close> is a set flag for the public half, the private
  half or both, and the empty state has neither: the empty value is 0 and the two
  halves are the first two bits.
\<close>

definition SSH_KEY_FLAG_EMPTY :: int where
  "SSH_KEY_FLAG_EMPTY = 0"

definition SSH_KEY_FLAG_PUBLIC :: int where
  "SSH_KEY_FLAG_PUBLIC = 1"

definition SSH_KEY_FLAG_PRIVATE :: int where
  "SSH_KEY_FLAG_PRIVATE = 2"

text \<open>
  \<^verbatim>\<open>struct ssh_key_struct\<close>, with the fields \<^verbatim>\<open>pki.c\<close> reads and writes. The backend
  handles \<^verbatim>\<open>dsa\<close> and \<^verbatim>\<open>rsa\<close> are pointers to objects of the cryptographic library:
  \<open>None\<close> is \<^verbatim>\<open>NULL\<close>, and the types \<open>'dsa\<close> and \<open>'rsa\<close> of the objects are left
  open. An \<^verbatim>\<open>ssh_key\<close> is a pointer to the structure, so a key handed to a function is
  an \<open>option\<close> as well.
\<close>

record ('dsa, 'rsa) ssh_key_struct =
  type :: ssh_keytypes_e
  flags :: int
  type_c :: "string option"
  dsa :: "'dsa option"
  rsa :: "'rsa option"

type_synonym ('dsa, 'rsa) ssh_key = "('dsa, 'rsa) ssh_key_struct option"

text \<open>
  What can go wrong in the C program beyond an error return: releasing a handle that is
  not live, dereferencing \<^verbatim>\<open>NULL\<close>, reading outside the bytes of a buffer.
\<close>

datatype fault = InvalidFree | NullDeref | OutOfBounds

text \<open>
  \<^verbatim>\<open>ssh_key_new\<close>: \<^verbatim>\<open>malloc\<close> (which may fail, \<open>malloc_ok\<close>) and \<^verbatim>\<open>ZERO_STRUCTP\<close>.
  \<^verbatim>\<open>SSH_KEYTYPE_UNKNOWN\<close> is the enumeration's value 0.
\<close>

definition ssh_key_zero :: "('dsa, 'rsa) ssh_key_struct" where
  "ssh_key_zero = \<lparr>type = SSH_KEYTYPE_UNKNOWN, flags = 0, type_c = None, dsa = None, rsa = None\<rparr>"

definition ssh_key_new :: "bool \<Rightarrow> ('dsa, 'rsa) ssh_key" where
  "ssh_key_new malloc_ok = (if malloc_ok then Some ssh_key_zero else None)"

text \<open>
  The objects of the cryptographic library that are allocated and not yet released.
  \<^verbatim>\<open>DSA_free\<close> and \<^verbatim>\<open>RSA_free\<close> (\<^verbatim>\<open>gcry_sexp_release\<close> in the libgcrypt build, with the
  same shape) release a live object; releasing one that is not live is a fault.
\<close>

record ('dsa, 'rsa) crypto_heap =
  live_dsa :: "'dsa set"
  live_rsa :: "'rsa set"

definition DSA_free :: "('dsa, 'rsa) crypto_heap \<Rightarrow> 'dsa \<Rightarrow> fault + ('dsa, 'rsa) crypto_heap" where
  "DSA_free h d = (if d \<in> live_dsa h then Inr (h\<lparr>live_dsa := live_dsa h - {d}\<rparr>) else Inl InvalidFree)"

definition RSA_free :: "('dsa, 'rsa) crypto_heap \<Rightarrow> 'rsa \<Rightarrow> fault + ('dsa, 'rsa) crypto_heap" where
  "RSA_free h r = (if r \<in> live_rsa h then Inr (h\<lparr>live_rsa := live_rsa h - {r}\<rparr>) else Inl InvalidFree)"

text \<open>
  \<^verbatim>\<open>ssh_key_clean\<close>: nothing for a \<^verbatim>\<open>NULL\<close> key; otherwise the two handles are released
  where they are not \<^verbatim>\<open>NULL\<close>, and the five fields are reset. The structure is changed
  in place, so the model returns the heap and the structure after the call.
\<close>

definition ssh_key_clean ::
  "('dsa, 'rsa) crypto_heap \<Rightarrow> ('dsa, 'rsa) ssh_key
     \<Rightarrow> fault + (('dsa, 'rsa) crypto_heap \<times> ('dsa, 'rsa) ssh_key)" where
  "ssh_key_clean h key =
     (case key of
        None \<Rightarrow> Inr (h, None)
      | Some k \<Rightarrow>
          (case (case dsa k of None \<Rightarrow> Inr h | Some d \<Rightarrow> DSA_free h d) of
             Inl f \<Rightarrow> Inl f
           | Inr h1 \<Rightarrow>
               (case (case rsa k of None \<Rightarrow> Inr h1 | Some r \<Rightarrow> RSA_free h1 r) of
                  Inl f \<Rightarrow> Inl f
                | Inr h2 \<Rightarrow>
                    Inr (h2, Some (k\<lparr>flags := SSH_KEY_FLAG_EMPTY,
                                       type := SSH_KEYTYPE_UNKNOWN,
                                       type_c := None,
                                       dsa := None,
                                       rsa := None\<rparr>)))))"

text \<open>The queries \<^verbatim>\<open>ssh_key_type\<close>, \<^verbatim>\<open>ssh_key_is_public\<close> and \<^verbatim>\<open>ssh_key_is_private\<close>.\<close>

definition ssh_key_type :: "('dsa, 'rsa) ssh_key \<Rightarrow> ssh_keytypes_e" where
  "ssh_key_type key = (case key of None \<Rightarrow> SSH_KEYTYPE_UNKNOWN | Some k \<Rightarrow> type k)"

definition ssh_key_is_public :: "('dsa, 'rsa) ssh_key \<Rightarrow> int" where
  "ssh_key_is_public k = (case k of None \<Rightarrow> 0 | Some key \<Rightarrow> flags key AND SSH_KEY_FLAG_PUBLIC)"

definition ssh_key_is_private :: "('dsa, 'rsa) ssh_key \<Rightarrow> int" where
  "ssh_key_is_private k = (case k of None \<Rightarrow> 0 | Some key \<Rightarrow> flags key AND SSH_KEY_FLAG_PRIVATE)"

text \<open>The empty state of a key, and a key whose handles are live objects of the heap.\<close>

definition key_is_empty :: "('dsa, 'rsa) ssh_key_struct \<Rightarrow> bool" where
  "key_is_empty k =
     (type k = SSH_KEYTYPE_UNKNOWN \<and> type_c k = None \<and> dsa k = None \<and> rsa k = None
      \<and> flags k = SSH_KEY_FLAG_EMPTY)"

definition key_handles_live :: "('dsa, 'rsa) crypto_heap \<Rightarrow> ('dsa, 'rsa) ssh_key_struct \<Rightarrow> bool" where
  "key_handles_live h k =
     ((case dsa k of None \<Rightarrow> True | Some d \<Rightarrow> d \<in> live_dsa h)
      \<and> (case rsa k of None \<Rightarrow> True | Some r \<Rightarrow> r \<in> live_rsa h))"

subsection \<open>Wire strings and buffers\<close>

text \<open>
  Modelled from the spec: the SSH string and the buffer of \<^verbatim>\<open>string.c\<close> and \<^verbatim>\<open>buffer.c\<close>,
  which are not among the sources. A wire string is a 4-byte big-endian length followed
  by that many bytes. An \<^verbatim>\<open>ssh_string\<close> is modelled by its payload; in memory its payload
  follows the 4-byte length in network byte order. An \<^verbatim>\<open>ssh_buffer\<close> is modelled by the
  bytes not yet consumed.
\<close>

type_synonym ssh_string = "byte list"

type_synonym ssh_buffer = "byte list"

definition u32_be :: "nat \<Rightarrow> byte list" where
  "u32_be n = [char_of (n div 16777216), char_of (n div 65536), char_of (n div 256), char_of n]"

definition ssh_string_len :: "ssh_string \<Rightarrow> nat" where
  "ssh_string_len s = length s"

definition ssh_string_mem :: "ssh_string \<Rightarrow> byte list" where
  "ssh_string_mem s = u32_be (length s) @ s"

definition buffer_get_rest :: "ssh_buffer \<Rightarrow> byte list" where
  "buffer_get_rest buffer = buffer"

definition buffer_get_rest_len :: "ssh_buffer \<Rightarrow> nat" where
  "buffer_get_rest_len buffer = length buffer"

fun buffer_get_u32 :: "ssh_buffer \<Rightarrow> (nat \<times> ssh_buffer) option" where
  "buffer_get_u32 (a # b # c # d # rest) =
     Some (((of_char a * 256 + of_char b) * 256 + of_char c) * 256 + of_char d, rest)"
| "buffer_get_u32 _ = None"

text \<open>
  Modelled from the spec: \<^verbatim>\<open>buffer_get_ssh_string\<close>. Reading a field means reading a
  4-byte big-endian length, then that many bytes; a length that would overrun the
  remaining buffer is a decode failure (\<^verbatim>\<open>NULL\<close>, here \<open>None\<close>). The second component is
  the buffer after the call; \<^verbatim>\<open>pki.c\<close> never reads a buffer again after a failed read.
\<close>

definition buffer_get_ssh_string :: "ssh_buffer \<Rightarrow> ssh_string option \<times> ssh_buffer" where
  "buffer_get_ssh_string buffer =
     (case buffer_get_u32 buffer of
        None \<Rightarrow> (None, buffer)
      | Some (len, rest) \<Rightarrow>
          if length rest < len then (None, rest)
          else (Some (take len rest), drop len rest))"

text \<open>
  Modelled from the spec: \<^verbatim>\<open>ssh_string_to_char\<close> gives the payload as a C string, whose
  content, as \<^verbatim>\<open>strcmp\<close> reads it, ends before the first NUL byte.
\<close>

definition ssh_string_to_char :: "ssh_string \<Rightarrow> string" where
  "ssh_string_to_char s = takeWhile (\<lambda>c. c \<noteq> CHR 0x00) s"

subsection \<open>What \<^verbatim>\<open>pki.c\<close> calls and does not define\<close>

text \<open>
  The functions of the cryptographic backend, of the base64 codec and of the allocator
  that \<^verbatim>\<open>pki.c\<close> calls are parameters of the model:
  \<^item> \<open>key_new_ok\<close>, \<open>buffer_new_ok\<close>, \<open>string_new_ok\<close>, \<open>sha1_init_ok\<close>: whether the
    allocation in \<^verbatim>\<open>ssh_key_new\<close>, \<^verbatim>\<open>ssh_buffer_new\<close> (with \<^verbatim>\<open>buffer_add_data\<close> and
    \<^verbatim>\<open>ssh_string_to_char\<close>), \<^verbatim>\<open>ssh_string_new\<close> and \<^verbatim>\<open>sha1_init\<close> succeeds;
  \<^item> \<open>base64_to_bin\<close>: the decoded bytes, \<open>None\<close> for \<^verbatim>\<open>NULL\<close>;
  \<^item> \<open>pki_pubkey_build_dss\<close>, \<open>pki_pubkey_build_rsa\<close>: the arguments are the string
    pointers as passed (\<open>None\<close> is \<^verbatim>\<open>NULL\<close>); the result is \<open>None\<close> for \<^verbatim>\<open>SSH_ERROR\<close> and
    the handle stored in the key for \<^verbatim>\<open>SSH_OK\<close>;
  \<^item> \<open>dsa_public\<close>, \<open>rsa_public\<close>: the public scalars \<open>(p, q, g, y)\<close> and \<open>(e, n)\<close> of a
    backend object, as the bytes of their wire fields;
  \<^item> \<open>sha1\<close>: the digest of the bytes given to \<^verbatim>\<open>sha1_update\<close> between \<^verbatim>\<open>sha1_init\<close> and
    \<^verbatim>\<open>sha1_final\<close>;
  \<^item> \<open>pki_do_sign\<close>, \<open>signature_to_string\<close>: \<open>None\<close> for \<^verbatim>\<open>NULL\<close>.
\<close>

record ('dsa, 'rsa, 'sig) backend =
  key_new_ok :: bool
  buffer_new_ok :: bool
  string_new_ok :: bool
  sha1_init_ok :: bool
  base64_to_bin :: "string \<Rightarrow> ssh_buffer option"
  pki_pubkey_build_dss ::
    "ssh_string option \<Rightarrow> ssh_string option \<Rightarrow> ssh_string option \<Rightarrow> ssh_string option
       \<Rightarrow> 'dsa option"
  pki_pubkey_build_rsa :: "ssh_string option \<Rightarrow> ssh_string option \<Rightarrow> 'rsa option"
  dsa_public :: "'dsa \<Rightarrow> ssh_string \<times> ssh_string \<times> ssh_string \<times> ssh_string"
  rsa_public :: "'rsa \<Rightarrow> ssh_string \<times> ssh_string"
  sha1 :: "byte list \<Rightarrow> byte list"
  pki_do_sign :: "('dsa, 'rsa) ssh_key_struct \<Rightarrow> byte list \<Rightarrow> 'sig option"
  signature_to_string :: "'sig \<Rightarrow> ssh_string option"

subsection \<open>Importing a public key\<close>

text \<open>
  \<^verbatim>\<open>pki_import_pubkey_buffer\<close>. The result is \<open>None\<close> for \<^verbatim>\<open>SSH_ERROR\<close> and the key stored
  in \<^verbatim>\<open>*pkey\<close> for \<^verbatim>\<open>SSH_OK\<close>; the label \<^verbatim>\<open>fail\<close> releases the new key and is \<open>None\<close>.
  The out-parameter \<^verbatim>\<open>pkey\<close> of the import functions is the returned key, so their
  \<^verbatim>\<open>pkey == NULL\<close> tests have no counterpart here.
  In the DSS case each field is read and tested in the order of the source. After the
  fourth read the source tests \<^verbatim>\<open>g == NULL\<close> again, not \<^verbatim>\<open>pubkey == NULL\<close>, and the model
  does the same.
\<close>

definition pki_import_pubkey_buffer ::
  "('dsa, 'rsa, 'sig) backend \<Rightarrow> ssh_buffer \<Rightarrow> ssh_keytypes_e \<Rightarrow> ('dsa, 'rsa) ssh_key" where
  "pki_import_pubkey_buffer B buffer ty =
     (case ssh_key_new (key_new_ok B) of
        None \<Rightarrow> None
      | Some key0 \<Rightarrow>
         (let key = key0\<lparr>type := ty, type_c := ssh_key_type_to_char ty,
                         flags := SSH_KEY_FLAG_PUBLIC\<rparr>
          in case ty of
            SSH_KEYTYPE_DSS \<Rightarrow>
              (let (p, b1) = buffer_get_ssh_string buffer in
               if p = None then None
               else let (q, b2) = buffer_get_ssh_string b1 in
               if q = None then None
               else let (g, b3) = buffer_get_ssh_string b2 in
               if g = None then None
               else let (pubkey, b4) = buffer_get_ssh_string b3 in
               if g = None then None
               else (case pki_pubkey_build_dss B p q g pubkey of
                       None \<Rightarrow> None
                     | Some d \<Rightarrow> Some (key\<lparr>dsa := Some d\<rparr>)))
          | SSH_KEYTYPE_RSA \<Rightarrow>
              (let (e, b1) = buffer_get_ssh_string buffer in
               if e = None then None
               else let (n, b2) = buffer_get_ssh_string b1 in
               if n = None then None
               else (case pki_pubkey_build_rsa B e n of
                       None \<Rightarrow> None
                     | Some r \<Rightarrow> Some (key\<lparr>rsa := Some r\<rparr>)))
          | SSH_KEYTYPE_RSA1 \<Rightarrow>
              (let (e, b1) = buffer_get_ssh_string buffer in
               if e = None then None
               else let (n, b2) = buffer_get_ssh_string b1 in
               if n = None then None
               else (case pki_pubkey_build_rsa B e n of
                       None \<Rightarrow> None
                     | Some r \<Rightarrow> Some (key\<lparr>rsa := Some r\<rparr>)))
          | SSH_KEYTYPE_ECDSA \<Rightarrow> None
          | SSH_KEYTYPE_UNKNOWN \<Rightarrow> None))"

text \<open>
  \<^verbatim>\<open>ssh_pki_import_pubkey_base64\<close>: the leading wire string of the decoded bytes is read
  and released at once; the key is imported with the type the caller gave.
\<close>

definition ssh_pki_import_pubkey_base64 ::
  "('dsa, 'rsa, 'sig) backend \<Rightarrow> string option \<Rightarrow> ssh_keytypes_e \<Rightarrow> ('dsa, 'rsa) ssh_key" where
  "ssh_pki_import_pubkey_base64 B b64_key ty =
     (case b64_key of
        None \<Rightarrow> None
      | Some text \<Rightarrow>
         (case base64_to_bin B text of
            None \<Rightarrow> None
          | Some buffer \<Rightarrow>
             (let (type_s, buffer1) = buffer_get_ssh_string buffer in
              if type_s = None then None
              else pki_import_pubkey_buffer B buffer1 ty)))"

text \<open>
  \<^verbatim>\<open>ssh_pki_import_pubkey_blob\<close>: the blob's bytes are copied into a new buffer, the
  leading wire string is read and turned into a C string, and the key is imported with
  the type that \<^verbatim>\<open>ssh_key_type_from_name\<close> gives for it.
\<close>

definition ssh_pki_import_pubkey_blob ::
  "('dsa, 'rsa, 'sig) backend \<Rightarrow> ssh_string option \<Rightarrow> ('dsa, 'rsa) ssh_key" where
  "ssh_pki_import_pubkey_blob B key_blob =
     (case key_blob of
        None \<Rightarrow> None
      | Some blob \<Rightarrow>
         if buffer_new_ok B then
           (let (type_s, buffer1) = buffer_get_ssh_string blob in
            case type_s of
              None \<Rightarrow> None
            | Some ts \<Rightarrow>
                pki_import_pubkey_buffer B buffer1 (ssh_key_type_from_name (ssh_string_to_char ts)))
         else None)"

subsection \<open>Exporting a public key\<close>

text \<open>
  The public scalars of a key, in the order of the wire format: \<open>p, q, g, y\<close> for DSS,
  \<open>e, n\<close> for RSA and RSA1; \<open>None\<close> where the key has no such material.
\<close>

definition public_fields ::
  "('dsa, 'rsa, 'sig) backend \<Rightarrow> ('dsa, 'rsa) ssh_key_struct \<Rightarrow> ssh_string list option" where
  "public_fields B key =
     (case type key of
        SSH_KEYTYPE_DSS \<Rightarrow>
          (case dsa key of
             None \<Rightarrow> None
           | Some d \<Rightarrow> (case dsa_public B d of (p, q, g, y) \<Rightarrow> Some [p, q, g, y]))
      | SSH_KEYTYPE_RSA \<Rightarrow>
          (case rsa key of
             None \<Rightarrow> None
           | Some r \<Rightarrow> (case rsa_public B r of (e, n) \<Rightarrow> Some [e, n]))
      | SSH_KEYTYPE_RSA1 \<Rightarrow>
          (case rsa key of
             None \<Rightarrow> None
           | Some r \<Rightarrow> (case rsa_public B r of (e, n) \<Rightarrow> Some [e, n]))
      | SSH_KEYTYPE_ECDSA \<Rightarrow> None
      | SSH_KEYTYPE_UNKNOWN \<Rightarrow> None)"

text \<open>
  Modelled from the spec: \<^verbatim>\<open>pki_publickey_to_blob\<close>, which is not among the sources.
  Encoding writes the canonical type-tag string followed by the field sequence for the
  key's algorithm, each as a wire string, reading the values out of the backend
  material; it fails for a key whose algorithm has no public-export mapping (ECDSA,
  Unknown).
\<close>

definition pki_publickey_to_blob ::
  "('dsa, 'rsa, 'sig) backend \<Rightarrow> ('dsa, 'rsa) ssh_key_struct \<Rightarrow> ssh_string option" where
  "pki_publickey_to_blob B key =
     (case ssh_key_type_to_char (type key) of
        None \<Rightarrow> None
      | Some tag \<Rightarrow>
          (case public_fields B key of
             None \<Rightarrow> None
           | Some flds \<Rightarrow> Some (ssh_string_mem tag @ concat (map ssh_string_mem flds))))"

text \<open>\<^verbatim>\<open>ssh_pki_export_pubkey_blob\<close>: \<^verbatim>\<open>NULL\<close> for a \<^verbatim>\<open>NULL\<close> key.\<close>

definition ssh_pki_export_pubkey_blob ::
  "('dsa, 'rsa, 'sig) backend \<Rightarrow> ('dsa, 'rsa) ssh_key \<Rightarrow> ssh_string option" where
  "ssh_pki_export_pubkey_blob B key =
     (case key of None \<Rightarrow> None | Some k \<Rightarrow> pki_publickey_to_blob B k)"

subsection \<open>Importing a public key file\<close>

text \<open>
  \<^verbatim>\<open>isspace\<close> in the C locale: space, tab, line feed, vertical tab, form feed and
  carriage return; no byte above 127 is white space. The loop \<^verbatim>\<open>while (!isspace((int)*p)) p++;\<close> started at the
  first of the given bytes: the offset of the first white-space byte, or \<open>None\<close> when the
  loop runs off the end of the bytes, which the source does not test for.
\<close>

definition isspace :: "char \<Rightarrow> bool" where
  "isspace c =
     (c = CHR 0x20 \<or> c = CHR 0x09 \<or> c = CHR 0x0A \<or> c = CHR 0x0B \<or> c = CHR 0x0C \<or> c = CHR 0x0D)"

fun skip_nonspace :: "string \<Rightarrow> nat option" where
  "skip_nonspace [] = None"
| "skip_nonspace (c # cs) = (if isspace c then Some 0 else map_option Suc (skip_nonspace cs))"

text \<open>
  What \<^verbatim>\<open>stat\<close>, \<^verbatim>\<open>fopen\<close>, \<^verbatim>\<open>malloc\<close> and \<^verbatim>\<open>fread\<close> give for a file name: one of the four
  failures the source returns \<^verbatim>\<open>SSH_ERROR\<close> for, or the \<^verbatim>\<open>st_size\<close> bytes of the file.
\<close>

datatype file_read = StatFails | OpenFails | NoMemory | ShortRead | Content string

text \<open>
  \<^verbatim>\<open>ssh_pki_import_pubkey_file\<close>. \<^verbatim>\<open>key_buf\<close> holds the \<^verbatim>\<open>st_size\<close> bytes read; the byte
  after them is allocated and never written, so a read at or after offset \<^verbatim>\<open>st_size\<close>
  is a read outside the input (\<open>OutOfBounds\<close>). Each token is ended by writing NUL over
  the white-space byte found, and is then read as a C string.
\<close>

definition ssh_pki_import_pubkey_file ::
  "('dsa, 'rsa, 'sig) backend \<Rightarrow> (string \<Rightarrow> file_read) \<Rightarrow> string option
     \<Rightarrow> fault + ('dsa, 'rsa) ssh_key" where
  "ssh_pki_import_pubkey_file B fs filename =
     (case filename of
        None \<Rightarrow> Inr None
      | Some fname \<Rightarrow>
          if fname = [] then Inr None
          else (case fs fname of
                  StatFails \<Rightarrow> Inr None
                | OpenFails \<Rightarrow> Inr None
                | NoMemory \<Rightarrow> Inr None
                | ShortRead \<Rightarrow> Inr None
                | Content key_buf \<Rightarrow>
                    (case skip_nonspace key_buf of
                       None \<Rightarrow> Inl OutOfBounds
                     | Some i \<Rightarrow>
                        (let ty = ssh_key_type_from_name (ssh_string_to_char (take i key_buf))
                         in if ty = SSH_KEYTYPE_UNKNOWN then Inr None
                            else (case skip_nonspace (drop (i + 1) key_buf) of
                                    None \<Rightarrow> Inl OutOfBounds
                                  | Some j \<Rightarrow>
                                      Inr (ssh_pki_import_pubkey_base64 B
                                             (Some (ssh_string_to_char (take j (drop (i + 1) key_buf))))
                                             ty))))))"

subsection \<open>Signing the session transcript\<close>

text \<open>
  Modelled from the spec: \<^verbatim>\<open>SHA_DIGEST_LEN\<close>, a macro of a header that is not among the
  sources; the digest size of SHA-1 is 20.
\<close>

definition SHA_DIGEST_LEN :: nat where
  "SHA_DIGEST_LEN = 20"

record ssh_crypto_struct =
  session_id :: "byte list"

record ssh_session_struct =
  current_crypto :: "ssh_crypto_struct option"
  next_crypto :: "ssh_crypto_struct option"

text \<open>The calls of the hash and signature primitives, in the order they are made.\<close>

datatype primitive_call =
    Sha1Init
  | Sha1Update "byte list"
  | Sha1Final
  | PkiDoSign "byte list"
  | SignatureToString

text \<open>
  Modelled from the spec: \<^verbatim>\<open>ssh_string_new\<close> and \<^verbatim>\<open>ssh_string_fill\<close> of \<^verbatim>\<open>string.c\<close>. A new
  string has the given length (its bytes are not yet meaningful); filling copies \<open>len\<close>
  bytes of the data over its start, and reads outside the data when the data is shorter
  than \<open>len\<close>.
\<close>

definition ssh_string_new :: "bool \<Rightarrow> nat \<Rightarrow> ssh_string option" where
  "ssh_string_new malloc_ok len = (if malloc_ok then Some (replicate len (CHR 0x00)) else None)"

definition ssh_string_fill :: "ssh_string \<Rightarrow> byte list \<Rightarrow> nat \<Rightarrow> fault + ssh_string" where
  "ssh_string_fill s data len =
     (if len = 0 \<or> length s < len then Inr s
      else if length data < len then Inl OutOfBounds
      else Inr (take len data @ drop len s))"

text \<open>
  \<^verbatim>\<open>ssh_pki_do_sign\<close>. The result is the list of primitive calls made and either a fault
  or the returned string (\<open>None\<close> for \<^verbatim>\<open>NULL\<close>). The hash context is the bytes absorbed so
  far. \<^verbatim>\<open>sha1_update(ctx, session_str, ssh_string_len(session_str) + 4)\<close> absorbs the
  string as it lies in memory, length field first. \<^verbatim>\<open>sha1_final(hash + 1, ctx)\<close> writes the
  digest into the 21-byte array \<^verbatim>\<open>hash\<close> from offset 1.
\<close>

definition ssh_pki_do_sign ::
  "('dsa, 'rsa, 'sig) backend \<Rightarrow> ssh_session_struct \<Rightarrow> ssh_buffer \<Rightarrow> ('dsa, 'rsa) ssh_key
     \<Rightarrow> primitive_call list \<times> (fault + ssh_string option)" where
  "ssh_pki_do_sign B session sigbuf privatekey =
     (let crypto = (case current_crypto session of Some c \<Rightarrow> Some c | None \<Rightarrow> next_crypto session);
          hash = replicate (SHA_DIGEST_LEN + 1) (CHR 0x00)
      in case privatekey of
        None \<Rightarrow> ([], Inr None)
      | Some key \<Rightarrow>
          if ssh_key_is_private privatekey = 0 then ([], Inr None)
          else (case ssh_string_new (string_new_ok B) SHA_DIGEST_LEN of
            None \<Rightarrow> ([], Inr None)
          | Some session_str0 \<Rightarrow>
             (case crypto of
                None \<Rightarrow> ([], Inl NullDeref)
              | Some c \<Rightarrow>
                 (case ssh_string_fill session_str0 (session_id c) SHA_DIGEST_LEN of
                    Inl f \<Rightarrow> ([], Inl f)
                  | Inr session_str \<Rightarrow>
                     if sha1_init_ok B then
                       (let ctx0 = [];
                            d1 = take (ssh_string_len session_str + 4) (ssh_string_mem session_str);
                            ctx1 = ctx0 @ d1;
                            d2 = take (buffer_get_rest_len sigbuf) (buffer_get_rest sigbuf);
                            ctx2 = ctx1 @ d2;
                            digest = sha1 B ctx2;
                            hash1 = take 1 hash @ digest @ drop (1 + length digest) hash;
                            hash2 = hash1[0 := CHR 0x00];
                            calls = [Sha1Init, Sha1Update d1, Sha1Update d2, Sha1Final, PkiDoSign hash2]
                        in case pki_do_sign B key hash2 of
                             None \<Rightarrow> (calls, Inr None)
                           | Some sign \<Rightarrow>
                               (calls @ [SignatureToString], Inr (signature_to_string B sign)))
                     else ([Sha1Init], Inr None)))))"

text \<open>The bytes given to the hash, from the \<^verbatim>\<open>sha1_update\<close> calls of a run, in order.\<close>

definition hash_input :: "primitive_call list \<Rightarrow> byte list" where
  "hash_input calls = concat (map (\<lambda>c. case c of Sha1Update d \<Rightarrow> d | _ \<Rightarrow> []) calls)"

subsection \<open>A reference backend\<close>

text \<open>
  Modelled from the spec: base64 decoding, a standard transform (the alphabet
  \<open>A-Z a-z 0-9 + /\<close>, four characters for three bytes, \<open>=\<close> padding at the end).
\<close>

definition b64_value :: "char \<Rightarrow> nat option" where
  "b64_value c =
     (let n = (of_char c :: nat) in
      if 65 \<le> n \<and> n \<le> 90 then Some (n - 65)
      else if 97 \<le> n \<and> n \<le> 122 then Some (n - 71)
      else if 48 \<le> n \<and> n \<le> 57 then Some (n + 4)
      else if n = 43 then Some 62
      else if n = 47 then Some 63
      else None)"

fun b64_bytes :: "nat list \<Rightarrow> byte list" where
  "b64_bytes (a # b # c # d # r) =
     char_of (a * 4 + b div 16) # char_of (b * 16 + c div 4) # char_of (c * 64 + d) # b64_bytes r"
| "b64_bytes [a, b, c] = [char_of (a * 4 + b div 16), char_of (b * 16 + c div 4)]"
| "b64_bytes [a, b] = [char_of (a * 4 + b div 16)]"
| "b64_bytes _ = []"

definition base64_decode :: "string \<Rightarrow> byte list option" where
  "base64_decode text =
     (let body = takeWhile (\<lambda>c. c \<noteq> CHR ''='') text;
          pad = dropWhile (\<lambda>c. c \<noteq> CHR ''='') text
      in if length text mod 4 = 0 \<and> length pad \<le> 2 \<and> list_all (\<lambda>c. c = CHR ''='') pad
         then map_option b64_bytes (those (map b64_value body))
         else None)"

text \<open>
  A backend for concrete runs: every allocation succeeds, a key object is the tuple of
  its public scalars, built when no argument is \<^verbatim>\<open>NULL\<close>; the digest is a 20-byte
  placeholder (the first 20 bytes of the zero-padded input) and a signature is the
  bytes it signs.
\<close>

type_synonym ref_dsa = "ssh_string \<times> ssh_string \<times> ssh_string \<times> ssh_string"

type_synonym ref_rsa = "ssh_string \<times> ssh_string"

definition ref_backend :: "(ref_dsa, ref_rsa, byte list) backend" where
  "ref_backend =
     \<lparr>key_new_ok = True,
      buffer_new_ok = True,
      string_new_ok = True,
      sha1_init_ok = True,
      base64_to_bin = base64_decode,
      pki_pubkey_build_dss =
        (\<lambda>p q g y. case (p, q, g, y) of
                     (Some p', Some q', Some g', Some y') \<Rightarrow> Some (p', q', g', y')
                   | _ \<Rightarrow> None),
      pki_pubkey_build_rsa =
        (\<lambda>e n. case (e, n) of (Some e', Some n') \<Rightarrow> Some (e', n') | _ \<Rightarrow> None),
      dsa_public = (\<lambda>d. d),
      rsa_public = (\<lambda>r. r),
      sha1 = (\<lambda>m. take 20 (m @ replicate 20 (CHR 0x00))),
      pki_do_sign = (\<lambda>k h. Some h),
      signature_to_string = (\<lambda>s. Some s)\<rparr>"

subsection \<open>Validly constructed public keys\<close>

text \<open>
  A public key is validly constructed for a backend when its display name is the
  canonical name of its type, its type is DSS, RSA or RSA1 with the matching material
  present, every public scalar fits a wire string (its length fits 32 bits), and the
  backend's construction primitive, given the key's own scalars, succeeds with material
  that has the same scalars.
\<close>

definition dsa_rebuilds :: "('dsa, 'rsa, 'sig) backend \<Rightarrow> 'dsa \<Rightarrow> bool" where
  "dsa_rebuilds B d =
     (case dsa_public B d of
        (p, q, g, y) \<Rightarrow>
          length p < 4294967296 \<and> length q < 4294967296
          \<and> length g < 4294967296 \<and> length y < 4294967296
          \<and> (case pki_pubkey_build_dss B (Some p) (Some q) (Some g) (Some y) of
                None \<Rightarrow> False
              | Some d' \<Rightarrow> dsa_public B d' = (p, q, g, y)))"

definition rsa_rebuilds :: "('dsa, 'rsa, 'sig) backend \<Rightarrow> 'rsa \<Rightarrow> bool" where
  "rsa_rebuilds B r =
     (case rsa_public B r of
        (e, n) \<Rightarrow>
          length e < 4294967296 \<and> length n < 4294967296
          \<and> (case pki_pubkey_build_rsa B (Some e) (Some n) of
                None \<Rightarrow> False
              | Some r' \<Rightarrow> rsa_public B r' = (e, n)))"

definition pubkey_valid :: "('dsa, 'rsa, 'sig) backend \<Rightarrow> ('dsa, 'rsa) ssh_key_struct \<Rightarrow> bool" where
  "pubkey_valid B k =
     (type_c k = ssh_key_type_to_char (type k)
      \<and> (case type k of
            SSH_KEYTYPE_DSS \<Rightarrow> (case dsa k of None \<Rightarrow> False | Some d \<Rightarrow> dsa_rebuilds B d)
          | SSH_KEYTYPE_RSA \<Rightarrow> (case rsa k of None \<Rightarrow> False | Some r \<Rightarrow> rsa_rebuilds B r)
          | SSH_KEYTYPE_RSA1 \<Rightarrow> (case rsa k of None \<Rightarrow> False | Some r \<Rightarrow> rsa_rebuilds B r)
          | SSH_KEYTYPE_ECDSA \<Rightarrow> False
          | SSH_KEYTYPE_UNKNOWN \<Rightarrow> False))"

section \<open>Name table\<close>

lemma ssh_key_type_from_name_aliases:
  "ssh_key_type_from_name ''rsa'' = SSH_KEYTYPE_RSA"
  "ssh_key_type_from_name ''ssh-rsa'' = SSH_KEYTYPE_RSA"
  "ssh_key_type_from_name ''dsa'' = SSH_KEYTYPE_DSS"
  "ssh_key_type_from_name ''ssh-dss'' = SSH_KEYTYPE_DSS"
  "ssh_key_type_from_name ''rsa1'' = SSH_KEYTYPE_RSA1"
  "ssh_key_type_from_name ''ssh-rsa1'' = SSH_KEYTYPE_RSA1"
  by (simp_all add: ssh_key_type_from_name_def)

lemma ssh_key_type_from_name_other:
  assumes "name \<notin> {''rsa'', ''ssh-rsa'', ''dsa'', ''ssh-dss'', ''rsa1'', ''ssh-rsa1''}"
  shows "ssh_key_type_from_name name = SSH_KEYTYPE_UNKNOWN"
  using assms by (simp add: ssh_key_type_from_name_def)

lemma ssh_key_type_from_name_never_ecdsa:
  "ssh_key_type_from_name name \<noteq> SSH_KEYTYPE_ECDSA"
  by (simp add: ssh_key_type_from_name_def)

text \<open>
  Claim C1. The six alias names map to RSA, RSA, DSS, DSS, RSA1, RSA1 and an
  unrecognised name maps to \<^verbatim>\<open>SSH_KEYTYPE_UNKNOWN\<close>, as the claim says. But the five
  ECDSA names do not get an outcome of their own: the source returns
  \<^verbatim>\<open>SSH_KEYTYPE_UNKNOWN\<close> for each of them, the very value it returns for a name
  it does not recognise at all, although the enumeration has \<^verbatim>\<open>SSH_KEYTYPE_ECDSA\<close>
  and \<^verbatim>\<open>ssh_key_type_to_char\<close> maps it to \<^verbatim>\<open>"ssh-ecdsa"\<close>.
\<close>

theorem ssh_key_type_from_name_ecdsa_is_unknown:
  "ssh_key_type_from_name ''ssh-ecdsa'' = SSH_KEYTYPE_UNKNOWN
   \<and> ssh_key_type_from_name ''ecdsa'' = SSH_KEYTYPE_UNKNOWN
   \<and> ssh_key_type_from_name ''ecdsa-sha2-nistp256'' = SSH_KEYTYPE_UNKNOWN
   \<and> ssh_key_type_from_name ''ecdsa-sha2-nistp384'' = SSH_KEYTYPE_UNKNOWN
   \<and> ssh_key_type_from_name ''ecdsa-sha2-nistp521'' = SSH_KEYTYPE_UNKNOWN
   \<and> ssh_key_type_from_name ''no-such-algorithm'' = SSH_KEYTYPE_UNKNOWN
   \<and> ssh_key_type_to_char SSH_KEYTYPE_ECDSA = Some ''ssh-ecdsa''"
  by (simp add: ssh_key_type_from_name_def)

section \<open>Key store: queries and release\<close>

text \<open>
  Claim C7. The queries are defined on every input, with no precondition: on a \<^verbatim>\<open>NULL\<close>
  key, on an empty key (any key whose flags are empty and whose type is unknown, and
  the key \<^verbatim>\<open>ssh_key_new\<close> returns), \<^verbatim>\<open>ssh_key_is_public\<close> and \<^verbatim>\<open>ssh_key_is_private\<close>
  return 0 (false) and \<^verbatim>\<open>ssh_key_type\<close> returns \<^verbatim>\<open>SSH_KEYTYPE_UNKNOWN\<close>; on any other key
  they return the masked flags and the stored type.
\<close>

theorem key_queries_on_null_and_empty:
  "ssh_key_is_public None = 0
   \<and> ssh_key_is_private None = 0
   \<and> ssh_key_type None = SSH_KEYTYPE_UNKNOWN
   \<and> ssh_key_is_public (Some (k\<lparr>flags := SSH_KEY_FLAG_EMPTY, type := SSH_KEYTYPE_UNKNOWN\<rparr>)) = 0
   \<and> ssh_key_is_private (Some (k\<lparr>flags := SSH_KEY_FLAG_EMPTY, type := SSH_KEYTYPE_UNKNOWN\<rparr>)) = 0
   \<and> ssh_key_type (Some (k\<lparr>flags := SSH_KEY_FLAG_EMPTY, type := SSH_KEYTYPE_UNKNOWN\<rparr>))
       = SSH_KEYTYPE_UNKNOWN
   \<and> ssh_key_is_public (ssh_key_new True) = 0
   \<and> ssh_key_is_private (ssh_key_new True) = 0
   \<and> ssh_key_type (ssh_key_new True) = SSH_KEYTYPE_UNKNOWN
   \<and> ssh_key_is_public (Some k') = flags k' AND SSH_KEY_FLAG_PUBLIC
   \<and> ssh_key_is_private (Some k') = flags k' AND SSH_KEY_FLAG_PRIVATE
   \<and> ssh_key_type (Some k') = type k'"
  by (simp add: ssh_key_is_public_def ssh_key_is_private_def ssh_key_type_def
      SSH_KEY_FLAG_EMPTY_def ssh_key_new_def ssh_key_zero_def)

lemma ssh_key_clean_live:
  assumes "key_handles_live h k"
  shows "\<exists>h1. ssh_key_clean h (Some k) =
            Inr (h1, Some (k\<lparr>flags := SSH_KEY_FLAG_EMPTY, type := SSH_KEYTYPE_UNKNOWN,
                              type_c := None, dsa := None, rsa := None\<rparr>))
          \<and> (dsa k = None \<and> rsa k = None \<longrightarrow> h1 = h)"
  using assms
  by (cases "dsa k"; cases "rsa k")
     (simp_all add: ssh_key_clean_def key_handles_live_def DSA_free_def RSA_free_def)

lemma ssh_key_clean_cleared:
  "ssh_key_clean h (Some (k\<lparr>dsa := None, rsa := None\<rparr>)) =
     Inr (h, Some (k\<lparr>flags := SSH_KEY_FLAG_EMPTY, type := SSH_KEYTYPE_UNKNOWN,
                      type_c := None, dsa := None, rsa := None\<rparr>))"
  by (simp add: ssh_key_clean_def)

lemma key_is_empty_reset:
  "key_is_empty k \<Longrightarrow>
     k\<lparr>flags := SSH_KEY_FLAG_EMPTY, type := SSH_KEYTYPE_UNKNOWN,
       type_c := None, dsa := None, rsa := None\<rparr> = k"
  by (cases k) (simp add: key_is_empty_def)

lemma ssh_key_clean_null: "ssh_key_clean h None = Inr (h, None)"
  by (simp add: ssh_key_clean_def)

text \<open>
  Claim C6. For every key whose handles, where not \<^verbatim>\<open>NULL\<close>, are live backend objects
  (an already-empty key among them), \<^verbatim>\<open>ssh_key_clean\<close> called twice in succession does
  not fault, and after each of the two calls the key is in the empty state: type
  unknown, display name \<^verbatim>\<open>NULL\<close>, both handles \<^verbatim>\<open>NULL\<close>, flags empty. The second call
  changes neither the key nor the heap, and on an already-empty key the first call
  changes nothing either.
\<close>

theorem ssh_key_clean_twice:
  assumes "key_handles_live h k"
  shows "\<exists>h1 k1. ssh_key_clean h (Some k) = Inr (h1, Some k1)
           \<and> key_is_empty k1
           \<and> ssh_key_clean h1 (Some k1) = Inr (h1, Some k1)
           \<and> (if key_is_empty k then h1 = h \<and> k1 = k else True)"
proof -
  let ?k1 = "k\<lparr>flags := SSH_KEY_FLAG_EMPTY, type := SSH_KEYTYPE_UNKNOWN,
                type_c := None, dsa := None, rsa := None\<rparr>"
  from ssh_key_clean_live [OF assms] obtain h1
    where first: "ssh_key_clean h (Some k) = Inr (h1, Some ?k1)"
      and same: "dsa k = None \<and> rsa k = None \<longrightarrow> h1 = h"
    by blast
  have empty: "key_is_empty ?k1"
    by (simp add: key_is_empty_def)
  have second: "ssh_key_clean h1 (Some ?k1) = Inr (h1, Some ?k1)"
    using ssh_key_clean_cleared [of h1 ?k1] by simp
  have noop: "if key_is_empty k then h1 = h \<and> ?k1 = k else True"
    using same key_is_empty_reset [of k] by (simp add: key_is_empty_def)
  from first empty second noop show ?thesis
    by blast
qed

theorem ssh_key_clean_twice_witness:
  "key_handles_live \<lparr>live_dsa = {1::nat, 2}, live_rsa = {}::nat set\<rparr>
      \<lparr>type = SSH_KEYTYPE_DSS, flags = 1, type_c = Some ''ssh-dss'', dsa = Some 1, rsa = None\<rparr>
   \<and> (\<exists>h1 k1. ssh_key_clean \<lparr>live_dsa = {1::nat, 2}, live_rsa = {}::nat set\<rparr>
                  (Some \<lparr>type = SSH_KEYTYPE_DSS, flags = 1, type_c = Some ''ssh-dss'',
                          dsa = Some 1, rsa = None\<rparr>) = Inr (h1, Some k1)
           \<and> key_is_empty k1
           \<and> ssh_key_clean h1 (Some k1) = Inr (h1, Some k1))"
proof -
  have live: "key_handles_live \<lparr>live_dsa = {1::nat, 2}, live_rsa = {}::nat set\<rparr>
      \<lparr>type = SSH_KEYTYPE_DSS, flags = 1, type_c = Some ''ssh-dss'', dsa = Some 1, rsa = None\<rparr>"
    by (simp add: key_handles_live_def)
  from ssh_key_clean_twice [OF live] live show ?thesis
    by blast
qed

section \<open>Signing the transcript\<close>

text \<open>
  Claim C3. For every key whose \<^verbatim>\<open>ssh_key_is_private\<close> is 0 (false), a \<^verbatim>\<open>NULL\<close> key
  included, \<^verbatim>\<open>ssh_pki_do_sign\<close> returns \<^verbatim>\<open>NULL\<close> (no signature) and makes no call of
  \<^verbatim>\<open>sha1_init\<close>, \<^verbatim>\<open>sha1_update\<close>, \<^verbatim>\<open>sha1_final\<close> or \<^verbatim>\<open>pki_do_sign\<close>.
\<close>

theorem ssh_pki_do_sign_not_private:
  assumes "ssh_key_is_private key = 0"
  shows "ssh_pki_do_sign B session sigbuf key = ([], Inr None)"
  using assms by (cases key) (simp_all add: ssh_pki_do_sign_def Let_def)

theorem ssh_pki_do_sign_not_private_witness:
  "ssh_key_is_private (Some \<lparr>type = SSH_KEYTYPE_RSA, flags = 1, type_c = Some ''ssh-rsa'',
                              dsa = (None :: ref_dsa option), rsa = Some (''e'', ''n'')\<rparr>) = 0
   \<and> ssh_pki_do_sign ref_backend
        \<lparr>current_crypto = Some \<lparr>session_id = ''0123456789abcdefghij''\<rparr>, next_crypto = None\<rparr>
        ''message''
        (Some \<lparr>type = SSH_KEYTYPE_RSA, flags = 1, type_c = Some ''ssh-rsa'',
                dsa = None, rsa = Some (''e'', ''n'')\<rparr>) = ([], Inr None)"
proof -
  have pub: "ssh_key_is_private (Some \<lparr>type = SSH_KEYTYPE_RSA, flags = 1,
      type_c = Some ''ssh-rsa'', dsa = (None :: ref_dsa option), rsa = Some (''e'', ''n'')\<rparr>) = 0"
    by (simp add: ssh_key_is_private_def SSH_KEY_FLAG_PRIVATE_def)
  from ssh_pki_do_sign_not_private [OF pub] pub show ?thesis
    by simp
qed

text \<open>
  Claim C4. For every signing call on a private key that reaches the hash (the session
  has a crypto context whose session identifier holds at least 20 bytes, and the two
  allocations succeed), the bytes given to the hash are, in this order: the four bytes
  \<open>00 00 00 14\<close> (the big-endian length 20, the digest size of SHA-1), the first 20 bytes
  of the session identifier, and the unread bytes of the buffer being signed. The
  prefix is the fixed digest size; no length comes from the caller.
\<close>

theorem ssh_pki_do_sign_hash_input:
  assumes priv: "ssh_key_is_private key \<noteq> 0"
    and crypto: "(case current_crypto session of Some c' \<Rightarrow> Some c' | None \<Rightarrow> next_crypto session) = Some c"
    and sid: "SHA_DIGEST_LEN \<le> length (session_id c)"
    and alloc: "string_new_ok B" "sha1_init_ok B"
  shows "hash_input (fst (ssh_pki_do_sign B session sigbuf key)) =
           [CHR 0x00, CHR 0x00, CHR 0x00, CHR 0x14] @ take 20 (session_id c) @ buffer_get_rest sigbuf
         \<and> (\<exists>h rest. fst (ssh_pki_do_sign B session sigbuf key) =
               [Sha1Init,
                Sha1Update ([CHR 0x00, CHR 0x00, CHR 0x00, CHR 0x14] @ take 20 (session_id c)),
                Sha1Update (buffer_get_rest sigbuf),
                Sha1Final,
                PkiDoSign h] @ rest
              \<and> hash_input rest = [])"
  using assms
  apply (cases key)
   apply (simp add: ssh_key_is_private_def)
  apply (simp add: ssh_pki_do_sign_def ssh_string_new_def ssh_string_fill_def SHA_DIGEST_LEN_def
      ssh_string_len_def ssh_string_mem_def u32_be_def buffer_get_rest_def buffer_get_rest_len_def
      Let_def hash_input_def char_of_eq_iff split: option.splits)
  done

theorem ssh_pki_do_sign_hash_input_witness:
  "ssh_key_is_private (Some \<lparr>type = SSH_KEYTYPE_RSA, flags = 3, type_c = Some ''ssh-rsa'',
                              dsa = (None :: ref_dsa option), rsa = Some (''e'', ''n'')\<rparr>) \<noteq> 0
   \<and> SHA_DIGEST_LEN \<le> length (session_id \<lparr>session_id = ''0123456789abcdefghijXYZ''\<rparr>)
   \<and> string_new_ok ref_backend \<and> sha1_init_ok ref_backend
   \<and> hash_input (fst (ssh_pki_do_sign ref_backend
        \<lparr>current_crypto = None, next_crypto = Some \<lparr>session_id = ''0123456789abcdefghijXYZ''\<rparr>\<rparr>
        ''message''
        (Some \<lparr>type = SSH_KEYTYPE_RSA, flags = 3, type_c = Some ''ssh-rsa'',
                dsa = None, rsa = Some (''e'', ''n'')\<rparr>)))
      = [CHR 0x00, CHR 0x00, CHR 0x00, CHR 0x14] @ ''0123456789abcdefghij'' @ ''message''"
proof -
  have priv: "ssh_key_is_private (Some \<lparr>type = SSH_KEYTYPE_RSA, flags = 3,
      type_c = Some ''ssh-rsa'', dsa = (None :: ref_dsa option), rsa = Some (''e'', ''n'')\<rparr>) \<noteq> 0"
    by (simp add: ssh_key_is_private_def SSH_KEY_FLAG_PRIVATE_def)
  have crypto: "(case current_crypto \<lparr>current_crypto = None,
        next_crypto = Some \<lparr>session_id = ''0123456789abcdefghijXYZ''\<rparr>\<rparr> of
      Some c' \<Rightarrow> Some c'
    | None \<Rightarrow> next_crypto \<lparr>current_crypto = None,
        next_crypto = Some \<lparr>session_id = ''0123456789abcdefghijXYZ''\<rparr>\<rparr>)
     = Some \<lparr>session_id = ''0123456789abcdefghijXYZ''\<rparr>"
    by simp
  have sid: "SHA_DIGEST_LEN \<le> length (session_id \<lparr>session_id = ''0123456789abcdefghijXYZ''\<rparr>)"
    by (simp add: SHA_DIGEST_LEN_def)
  have alloc: "string_new_ok ref_backend" "sha1_init_ok ref_backend"
    by (simp_all add: ref_backend_def)
  from ssh_pki_do_sign_hash_input [OF priv crypto sid alloc, of "''message''"] priv sid alloc
  show ?thesis
    by (simp add: buffer_get_rest_def)
qed

text \<open>
  Claim C10. For every call of \<^verbatim>\<open>ssh_pki_do_sign\<close> that returns a signature, with a
  digest of 20 bytes, the buffer handed to \<^verbatim>\<open>pki_do_sign\<close> is 21 bytes long, its first
  byte is zero, and the digest of the transcript lies at offsets 1 to 20.
\<close>

theorem ssh_pki_do_sign_signed_buffer:
  assumes run: "ssh_pki_do_sign B session sigbuf key = (calls, Inr (Some signature))"
    and digest: "\<forall>m. length (sha1 B m) = SHA_DIGEST_LEN"
  shows "\<exists>d1 d2 h. calls = [Sha1Init, Sha1Update d1, Sha1Update d2, Sha1Final, PkiDoSign h,
                             SignatureToString]
           \<and> length h = 21
           \<and> h ! 0 = CHR 0x00
           \<and> drop 1 h = sha1 B (hash_input calls)
           \<and> length (sha1 B (hash_input calls)) = 20"
  using assms
  apply (cases key)
   apply (simp add: ssh_pki_do_sign_def Let_def)
  apply (auto simp add: ssh_pki_do_sign_def Let_def SHA_DIGEST_LEN_def hash_input_def
      split: option.splits if_splits sum.splits)
  done

lemma u32_be_20: "u32_be 20 = [CHR 0x00, CHR 0x00, CHR 0x00, CHR 0x14]"
  by (simp add: u32_be_def char_of_eq_iff)

lemma ssh_pki_do_sign_run:
  assumes priv: "ssh_key_is_private (Some k) \<noteq> 0"
    and crypto: "(case current_crypto session of Some c' \<Rightarrow> Some c' | None \<Rightarrow> next_crypto session) = Some c"
    and sid: "SHA_DIGEST_LEN \<le> length (session_id c)"
    and alloc: "string_new_ok B" "sha1_init_ok B"
    and digest: "\<forall>m. length (sha1 B m) = SHA_DIGEST_LEN"
  shows "ssh_pki_do_sign B session sigbuf (Some k) =
           (let d1 = [CHR 0x00, CHR 0x00, CHR 0x00, CHR 0x14] @ take 20 (session_id c);
                h = CHR 0x00 # sha1 B (d1 @ sigbuf);
                calls = [Sha1Init, Sha1Update d1, Sha1Update sigbuf, Sha1Final, PkiDoSign h]
            in case pki_do_sign B k h of
                 None \<Rightarrow> (calls, Inr None)
               | Some sg \<Rightarrow> (calls @ [SignatureToString], Inr (signature_to_string B sg)))"
proof -
  have len: "length (sha1 B m) = 20" for m
    using digest by (simp add: SHA_DIGEST_LEN_def)
  show ?thesis
    using priv crypto sid alloc
    by (simp add: ssh_pki_do_sign_def ssh_string_new_def ssh_string_fill_def SHA_DIGEST_LEN_def
        ssh_string_len_def ssh_string_mem_def u32_be_20 buffer_get_rest_def
        buffer_get_rest_len_def Let_def len split: option.splits)
qed

lemma ref_backend_run:
  "ssh_pki_do_sign ref_backend
     \<lparr>current_crypto = None, next_crypto = Some \<lparr>session_id = ''0123456789abcdefghijXYZ''\<rparr>\<rparr>
     ''hello''
     (Some \<lparr>type = SSH_KEYTYPE_RSA, flags = 3, type_c = Some ''ssh-rsa'',
             dsa = None, rsa = Some (''e'', ''n'')\<rparr>)
   = ([Sha1Init,
       Sha1Update ([CHR 0x00, CHR 0x00, CHR 0x00, CHR 0x14] @ ''0123456789abcdefghij''),
       Sha1Update ''hello'',
       Sha1Final,
       PkiDoSign ([CHR 0x00, CHR 0x00, CHR 0x00, CHR 0x00, CHR 0x14] @ ''0123456789abcdef''),
       SignatureToString],
      Inr (Some ([CHR 0x00, CHR 0x00, CHR 0x00, CHR 0x00, CHR 0x14] @ ''0123456789abcdef'')))"
proof -
  have priv: "ssh_key_is_private (Some \<lparr>type = SSH_KEYTYPE_RSA, flags = 3,
      type_c = Some ''ssh-rsa'', dsa = (None :: ref_dsa option), rsa = Some (''e'', ''n'')\<rparr>) \<noteq> 0"
    by (simp add: ssh_key_is_private_def SSH_KEY_FLAG_PRIVATE_def)
  have digest: "\<forall>m. length (sha1 ref_backend m) = SHA_DIGEST_LEN"
    by (simp add: ref_backend_def SHA_DIGEST_LEN_def min_def)
  show ?thesis
    by (subst ssh_pki_do_sign_run [OF priv _ _ _ _ digest,
          where c = "\<lparr>session_id = ''0123456789abcdefghijXYZ''\<rparr>"])
       (simp_all add: ref_backend_def SHA_DIGEST_LEN_def Let_def)
qed

theorem ssh_pki_do_sign_signed_buffer_witness:
  "ssh_pki_do_sign ref_backend
     \<lparr>current_crypto = None, next_crypto = Some \<lparr>session_id = ''0123456789abcdefghijXYZ''\<rparr>\<rparr>
     ''hello''
     (Some \<lparr>type = SSH_KEYTYPE_RSA, flags = 3, type_c = Some ''ssh-rsa'',
             dsa = None, rsa = Some (''e'', ''n'')\<rparr>)
   = ([Sha1Init,
       Sha1Update ([CHR 0x00, CHR 0x00, CHR 0x00, CHR 0x14] @ ''0123456789abcdefghij''),
       Sha1Update ''hello'',
       Sha1Final,
       PkiDoSign ([CHR 0x00, CHR 0x00, CHR 0x00, CHR 0x00, CHR 0x14] @ ''0123456789abcdef''),
       SignatureToString],
      Inr (Some ([CHR 0x00, CHR 0x00, CHR 0x00, CHR 0x00, CHR 0x14] @ ''0123456789abcdef'')))
   \<and> (\<forall>m. length (sha1 ref_backend m) = SHA_DIGEST_LEN)
   \<and> (\<exists>h. PkiDoSign h \<in> set [Sha1Init,
       Sha1Update ([CHR 0x00, CHR 0x00, CHR 0x00, CHR 0x14] @ ''0123456789abcdefghij''),
       Sha1Update ''hello'',
       Sha1Final,
       PkiDoSign ([CHR 0x00, CHR 0x00, CHR 0x00, CHR 0x00, CHR 0x14] @ ''0123456789abcdef''),
       SignatureToString]
       \<and> length h = 21 \<and> h ! 0 = CHR 0x00
       \<and> drop 1 h = sha1 ref_backend
            ([CHR 0x00, CHR 0x00, CHR 0x00, CHR 0x14] @ ''0123456789abcdefghij'' @ ''hello''))"
proof -
  have digest: "\<forall>m. length (sha1 ref_backend m) = SHA_DIGEST_LEN"
    by (simp add: ref_backend_def SHA_DIGEST_LEN_def min_def)
  from ssh_pki_do_sign_signed_buffer [OF ref_backend_run digest] ref_backend_run digest
  show ?thesis
    by (simp add: hash_input_def)
qed

section \<open>Wire strings\<close>

lemma be_digits:
  fixes n :: nat
  shows "16777216 * (n div 16777216) + 65536 * (n div 65536 mod 256) +
         n div 256 mod 256 * 256 + n mod 256 = n"
proof -
  define a where "a = n div 256"
  define b where "b = a div 256"
  define c where "c = b div 256"
  have b_eq: "n div 65536 = b"
    unfolding b_def a_def by (simp add: div_mult2_eq)
  have c_eq: "n div 16777216 = c"
    unfolding c_def b_def a_def by (simp add: div_mult2_eq)
  have n_eq: "n = 256 * a + n mod 256"
    unfolding a_def by simp
  have a_eq: "a = 256 * b + a mod 256"
    unfolding b_def by simp
  have b_eq2: "b = 256 * c + b mod 256"
    unfolding c_def by simp
  have "16777216 * c + 65536 * (b mod 256) + a mod 256 * 256 + n mod 256 = n"
    using n_eq a_eq b_eq2 by linarith
  then show ?thesis
    by (simp add: b_eq c_eq a_def)
qed

lemma buffer_get_u32_be:
  "n < 4294967296 \<Longrightarrow> buffer_get_u32 (u32_be n @ rest) = Some (n, rest)"
  using be_digits [of n] by (simp add: u32_be_def)

lemma buffer_get_ssh_string_mem:
  "length s < 4294967296 \<Longrightarrow>
     buffer_get_ssh_string (ssh_string_mem s @ rest) = (Some s, rest)"
  by (simp add: buffer_get_ssh_string_def ssh_string_mem_def buffer_get_u32_be)


lemma buffer_get_ssh_string_mem_last:
  "length s < 4294967296 \<Longrightarrow> buffer_get_ssh_string (ssh_string_mem s) = (Some s, [])"
  using buffer_get_ssh_string_mem [of s "[]"] by simp

lemma tag_dss: "ssh_key_type_from_name (ssh_string_to_char ''ssh-dss'') = SSH_KEYTYPE_DSS"
  by (simp add: ssh_key_type_from_name_def ssh_string_to_char_def)

lemma tag_rsa: "ssh_key_type_from_name (ssh_string_to_char ''ssh-rsa'') = SSH_KEYTYPE_RSA"
  by (simp add: ssh_key_type_from_name_def ssh_string_to_char_def)

lemma tag_rsa1: "ssh_key_type_from_name (ssh_string_to_char ''ssh-rsa1'') = SSH_KEYTYPE_RSA1"
  by (simp add: ssh_key_type_from_name_def ssh_string_to_char_def)

lemma buffer_get_ssh_string_empty: "buffer_get_ssh_string [] = (None, [])"
  by (simp add: buffer_get_ssh_string_def)

lemma pki_import_pubkey_buffer_dss_short:
  assumes "fst (buffer_get_ssh_string buffer) = None
           \<or> (\<exists>p b1. buffer_get_ssh_string buffer = (Some p, b1)
                 \<and> (fst (buffer_get_ssh_string b1) = None
                     \<or> (\<exists>q b2. buffer_get_ssh_string b1 = (Some q, b2)
                           \<and> fst (buffer_get_ssh_string b2) = None)))"
  shows "pki_import_pubkey_buffer B buffer SSH_KEYTYPE_DSS = None"
  using assms
  by (auto simp: pki_import_pubkey_buffer_def ssh_key_new_def Let_def split: prod.splits)

lemma pki_import_pubkey_buffer_dss_three:
  assumes "length p < 4294967296" "length q < 4294967296" "length g < 4294967296"
    and "fst (buffer_get_ssh_string rest) = None"
  shows "pki_import_pubkey_buffer B (ssh_string_mem p @ ssh_string_mem q @ ssh_string_mem g @ rest)
           SSH_KEYTYPE_DSS =
         (if key_new_ok B
          then case pki_pubkey_build_dss B (Some p) (Some q) (Some g) None of
                 None \<Rightarrow> None
               | Some d \<Rightarrow> Some \<lparr>type = SSH_KEYTYPE_DSS, flags = SSH_KEY_FLAG_PUBLIC,
                                  type_c = Some ''ssh-dss'', dsa = Some d, rsa = None\<rparr>
          else None)"
  using assms
  by (auto simp: pki_import_pubkey_buffer_def ssh_key_new_def ssh_key_zero_def Let_def
      buffer_get_ssh_string_mem split: prod.splits option.splits)

section \<open>Decoding a public key\<close>

text \<open>
  Claim C2. When the first, second or third DSS field is missing or truncated, decoding
  fails (\<open>pki_import_pubkey_buffer_dss_short\<close>). When the buffer ends after the third
  field \<open>g\<close>, or holds only a truncated fourth field, the source does not fail: it
  tests \<^verbatim>\<open>g\<close> a second time where it should test \<^verbatim>\<open>pubkey\<close>, and calls
  \<^verbatim>\<open>pki_pubkey_build_dss\<close> with a \<^verbatim>\<open>NULL\<close> fourth string. Whether a key is returned
  is then left to the backend: a key built from three fields is returned whenever the
  backend builds one. The same holds at the entry point \<^verbatim>\<open>ssh_pki_import_pubkey_blob\<close>,
  for a blob tagged \<^verbatim>\<open>"ssh-dss"\<close> that holds three fields.
\<close>

theorem pki_import_pubkey_buffer_dss_missing_y:
  "pki_import_pubkey_buffer B
     (ssh_string_mem ''p'' @ ssh_string_mem ''q'' @ ssh_string_mem ''g'') SSH_KEYTYPE_DSS =
     (if key_new_ok B
      then case pki_pubkey_build_dss B (Some ''p'') (Some ''q'') (Some ''g'') None of
             None \<Rightarrow> None
           | Some d \<Rightarrow> Some \<lparr>type = SSH_KEYTYPE_DSS, flags = SSH_KEY_FLAG_PUBLIC,
                              type_c = Some ''ssh-dss'', dsa = Some d, rsa = None\<rparr>
      else None)
   \<and> pki_import_pubkey_buffer B
       (ssh_string_mem ''p'' @ ssh_string_mem ''q'' @ ssh_string_mem ''g''
          @ [CHR 0x00, CHR 0x00, CHR 0x00, CHR 0x05, CHR ''y'']) SSH_KEYTYPE_DSS =
     (if key_new_ok B
      then case pki_pubkey_build_dss B (Some ''p'') (Some ''q'') (Some ''g'') None of
             None \<Rightarrow> None
           | Some d \<Rightarrow> Some \<lparr>type = SSH_KEYTYPE_DSS, flags = SSH_KEY_FLAG_PUBLIC,
                              type_c = Some ''ssh-dss'', dsa = Some d, rsa = None\<rparr>
      else None)
   \<and> ssh_pki_import_pubkey_blob B
       (Some (ssh_string_mem ''ssh-dss'' @ ssh_string_mem ''p'' @ ssh_string_mem ''q''
                @ ssh_string_mem ''g'')) =
     (if buffer_new_ok B \<and> key_new_ok B
      then case pki_pubkey_build_dss B (Some ''p'') (Some ''q'') (Some ''g'') None of
             None \<Rightarrow> None
           | Some d \<Rightarrow> Some \<lparr>type = SSH_KEYTYPE_DSS, flags = SSH_KEY_FLAG_PUBLIC,
                              type_c = Some ''ssh-dss'', dsa = Some d, rsa = None\<rparr>
      else None)"
proof -
  have none: "fst (buffer_get_ssh_string []) = None"
    by (simp add: buffer_get_ssh_string_def)
  have short: "fst (buffer_get_ssh_string [CHR 0x00, CHR 0x00, CHR 0x00, CHR 0x05, CHR ''y'']) = None"
    by (simp add: buffer_get_ssh_string_def)
  have ended: "pki_import_pubkey_buffer B
     (ssh_string_mem ''p'' @ ssh_string_mem ''q'' @ ssh_string_mem ''g'') SSH_KEYTYPE_DSS =
     (if key_new_ok B
      then case pki_pubkey_build_dss B (Some ''p'') (Some ''q'') (Some ''g'') None of
             None \<Rightarrow> None
           | Some d \<Rightarrow> Some \<lparr>type = SSH_KEYTYPE_DSS, flags = SSH_KEY_FLAG_PUBLIC,
                              type_c = Some ''ssh-dss'', dsa = Some d, rsa = None\<rparr>
      else None)"
    using pki_import_pubkey_buffer_dss_three [of "''p''" "''q''" "''g''" "[]" B, OF _ _ _ none]
    by simp
  have truncated: "pki_import_pubkey_buffer B
       (ssh_string_mem ''p'' @ ssh_string_mem ''q'' @ ssh_string_mem ''g''
          @ [CHR 0x00, CHR 0x00, CHR 0x00, CHR 0x05, CHR ''y'']) SSH_KEYTYPE_DSS =
     (if key_new_ok B
      then case pki_pubkey_build_dss B (Some ''p'') (Some ''q'') (Some ''g'') None of
             None \<Rightarrow> None
           | Some d \<Rightarrow> Some \<lparr>type = SSH_KEYTYPE_DSS, flags = SSH_KEY_FLAG_PUBLIC,
                              type_c = Some ''ssh-dss'', dsa = Some d, rsa = None\<rparr>
      else None)"
    using pki_import_pubkey_buffer_dss_three [of "''p''" "''q''" "''g''" _ B, OF _ _ _ short]
    by simp
  have blob: "ssh_pki_import_pubkey_blob B
       (Some (ssh_string_mem ''ssh-dss'' @ ssh_string_mem ''p'' @ ssh_string_mem ''q''
                @ ssh_string_mem ''g'')) =
     (if buffer_new_ok B
      then pki_import_pubkey_buffer B
             (ssh_string_mem ''p'' @ ssh_string_mem ''q'' @ ssh_string_mem ''g'') SSH_KEYTYPE_DSS
      else None)"
    by (simp add: ssh_pki_import_pubkey_blob_def buffer_get_ssh_string_mem tag_dss)
  from ended truncated blob show ?thesis
    by simp
qed

lemma pki_import_pubkey_buffer_type:
  assumes "pki_import_pubkey_buffer B buffer ty = Some key"
  shows "type key = ty \<and> type_c key = ssh_key_type_to_char ty \<and> flags key = SSH_KEY_FLAG_PUBLIC
         \<and> (ty = SSH_KEYTYPE_DSS \<or> ty = SSH_KEYTYPE_RSA \<or> ty = SSH_KEYTYPE_RSA1)"
  using assms
  by (cases ty)
     (auto simp: pki_import_pubkey_buffer_def ssh_key_new_def ssh_key_zero_def Let_def
       split: prod.splits option.splits if_splits)

text \<open>
  Claim C8, as amended. A key that \<^verbatim>\<open>ssh_pki_import_pubkey_base64\<close> returns has the type
  the caller passed and that type's canonical name; the leading wire string of the
  decoded bytes (the blob's own tag) is read and dropped, and the key is what
  \<^verbatim>\<open>pki_import_pubkey_buffer\<close> builds from the bytes after it for the caller's type.
\<close>

theorem ssh_pki_import_pubkey_base64_type:
  assumes "ssh_pki_import_pubkey_base64 B b64_key ty = Some key"
  shows "type key = ty \<and> type_c key = ssh_key_type_to_char ty
         \<and> (\<exists>b64 buffer tag rest. b64_key = Some b64 \<and> base64_to_bin B b64 = Some buffer
               \<and> buffer_get_ssh_string buffer = (Some tag, rest)
               \<and> pki_import_pubkey_buffer B rest ty = Some key)"
proof -
  from assms obtain b64 buffer tag rest
    where parts: "b64_key = Some b64" "base64_to_bin B b64 = Some buffer"
      "buffer_get_ssh_string buffer = (Some tag, rest)"
      "pki_import_pubkey_buffer B rest ty = Some key"
    by (auto simp: ssh_pki_import_pubkey_base64_def Let_def
        split: option.splits prod.splits if_splits)
  from pki_import_pubkey_buffer_type [OF parts(4)] parts show ?thesis
    by blast
qed

lemma base64_rsa_blob:
  "base64_decode ''AAAAB3NzaC1yc2EAAAADAQABAAAABADDWhE='' =
     Some (ssh_string_mem ''ssh-rsa'' @ ssh_string_mem [CHR 0x01, CHR 0x00, CHR 0x01]
             @ ssh_string_mem [CHR 0x00, CHR 0xC3, CHR 0x5A, CHR 0x11])"
  by (simp add: base64_decode_def b64_value_def ssh_string_mem_def u32_be_def char_of_eq_iff)

lemma import_rsa_blob_as_rsa1:
  "ssh_pki_import_pubkey_base64 ref_backend (Some ''AAAAB3NzaC1yc2EAAAADAQABAAAABADDWhE='')
     SSH_KEYTYPE_RSA1 =
   Some \<lparr>type = SSH_KEYTYPE_RSA1, flags = 1, type_c = Some ''ssh-rsa1'', dsa = None,
          rsa = Some ([CHR 0x01, CHR 0x00, CHR 0x01], [CHR 0x00, CHR 0xC3, CHR 0x5A, CHR 0x11])\<rparr>"
  by (simp add: ssh_pki_import_pubkey_base64_def ref_backend_def base64_rsa_blob
      buffer_get_ssh_string_mem buffer_get_ssh_string_mem_last pki_import_pubkey_buffer_def ssh_key_new_def ssh_key_zero_def
      SSH_KEY_FLAG_PUBLIC_def Let_def)

text \<open>
  Claim C8, as stated, fails: the blob below carries the tag \<^verbatim>\<open>"ssh-rsa"\<close>, which names
  RSA; decoded with the type RSA1 it yields a key of type RSA1, not RSA.
\<close>

theorem ssh_pki_import_pubkey_base64_ignores_tag:
  "base64_to_bin ref_backend ''AAAAB3NzaC1yc2EAAAADAQABAAAABADDWhE='' =
     Some (ssh_string_mem ''ssh-rsa'' @ ssh_string_mem [CHR 0x01, CHR 0x00, CHR 0x01]
             @ ssh_string_mem [CHR 0x00, CHR 0xC3, CHR 0x5A, CHR 0x11])
   \<and> ssh_key_type_from_name (ssh_string_to_char ''ssh-rsa'') = SSH_KEYTYPE_RSA
   \<and> ssh_key_type (ssh_pki_import_pubkey_base64 ref_backend
         (Some ''AAAAB3NzaC1yc2EAAAADAQABAAAABADDWhE='') SSH_KEYTYPE_RSA1) = SSH_KEYTYPE_RSA1
   \<and> ssh_key_type (ssh_pki_import_pubkey_base64 ref_backend
         (Some ''AAAAB3NzaC1yc2EAAAADAQABAAAABADDWhE='') SSH_KEYTYPE_RSA1) \<noteq> SSH_KEYTYPE_RSA"
proof -
  have decoded: "base64_to_bin ref_backend ''AAAAB3NzaC1yc2EAAAADAQABAAAABADDWhE='' =
     Some (ssh_string_mem ''ssh-rsa'' @ ssh_string_mem [CHR 0x01, CHR 0x00, CHR 0x01]
             @ ssh_string_mem [CHR 0x00, CHR 0xC3, CHR 0x5A, CHR 0x11])"
    using base64_rsa_blob by (simp add: ref_backend_def)
  have tag: "ssh_key_type_from_name (ssh_string_to_char ''ssh-rsa'') = SSH_KEYTYPE_RSA"
    by (simp add: ssh_key_type_from_name_def ssh_string_to_char_def)
  have imported: "ssh_key_type (ssh_pki_import_pubkey_base64 ref_backend
         (Some ''AAAAB3NzaC1yc2EAAAADAQABAAAABADDWhE='') SSH_KEYTYPE_RSA1) = SSH_KEYTYPE_RSA1"
    by (simp add: import_rsa_blob_as_rsa1 ssh_key_type_def)
  from decoded tag imported show ?thesis
    by simp
qed

theorem ssh_pki_import_pubkey_base64_type_witness:
  "ssh_pki_import_pubkey_base64 ref_backend (Some ''AAAAB3NzaC1yc2EAAAADAQABAAAABADDWhE='')
     SSH_KEYTYPE_RSA1 =
   Some \<lparr>type = SSH_KEYTYPE_RSA1, flags = 1, type_c = Some ''ssh-rsa1'', dsa = None,
          rsa = Some ([CHR 0x01, CHR 0x00, CHR 0x01], [CHR 0x00, CHR 0xC3, CHR 0x5A, CHR 0x11])\<rparr>
   \<and> type \<lparr>type = SSH_KEYTYPE_RSA1, flags = 1, type_c = Some ''ssh-rsa1'',
            dsa = (None :: ref_dsa option),
            rsa = Some ([CHR 0x01, CHR 0x00, CHR 0x01], [CHR 0x00, CHR 0xC3, CHR 0x5A, CHR 0x11])\<rparr>
       = SSH_KEYTYPE_RSA1
   \<and> (\<exists>tag rest. buffer_get_ssh_string
          (ssh_string_mem ''ssh-rsa'' @ ssh_string_mem [CHR 0x01, CHR 0x00, CHR 0x01]
             @ ssh_string_mem [CHR 0x00, CHR 0xC3, CHR 0x5A, CHR 0x11]) = (Some tag, rest)
        \<and> pki_import_pubkey_buffer ref_backend rest SSH_KEYTYPE_RSA1 =
            Some \<lparr>type = SSH_KEYTYPE_RSA1, flags = 1, type_c = Some ''ssh-rsa1'', dsa = None,
              rsa = Some ([CHR 0x01, CHR 0x00, CHR 0x01], [CHR 0x00, CHR 0xC3, CHR 0x5A, CHR 0x11])\<rparr>)"
proof -
  have decoded: "base64_to_bin ref_backend ''AAAAB3NzaC1yc2EAAAADAQABAAAABADDWhE='' =
     Some (ssh_string_mem ''ssh-rsa'' @ ssh_string_mem [CHR 0x01, CHR 0x00, CHR 0x01]
             @ ssh_string_mem [CHR 0x00, CHR 0xC3, CHR 0x5A, CHR 0x11])"
    using base64_rsa_blob by (simp add: ref_backend_def)
  from ssh_pki_import_pubkey_base64_type [OF import_rsa_blob_as_rsa1] decoded
    import_rsa_blob_as_rsa1
  show ?thesis
    by auto
qed

lemma skip_nonspace_none:
  "skip_nonspace s = None \<longleftrightarrow> (\<forall>c \<in> set s. \<not> isspace c)"
  by (induction s) auto

lemma skip_nonspace_some:
  "skip_nonspace s = Some i \<Longrightarrow> i < length s \<and> isspace (s ! i) \<and> (\<forall>c \<in> set (take i s). \<not> isspace c)"
  by (induction s arbitrary: i) (auto split: if_splits)

lemma import_file_with_newline:
  "ssh_pki_import_pubkey_file ref_backend
        (\<lambda>name. Content (''ssh-dss AAAAB3NzaC1kc3MAAAABBwAAAAEDAAAAAQIAAAABBA=='' @ [CHR 0x0A]))
        (Some ''id_dsa.pub'') =
     Inr (Some \<lparr>type = SSH_KEYTYPE_DSS, flags = 1, type_c = Some ''ssh-dss'',
                 dsa = Some ([CHR 0x07], [CHR 0x03], [CHR 0x02], [CHR 0x04]), rsa = None\<rparr>)"
  by (simp add: ssh_pki_import_pubkey_file_def isspace_def ssh_string_to_char_def
      ssh_key_type_from_name_def ssh_pki_import_pubkey_base64_def ref_backend_def
      base64_decode_def b64_value_def char_of_eq_iff buffer_get_ssh_string_def
      pki_import_pubkey_buffer_def ssh_key_new_def ssh_key_zero_def
      SSH_KEY_FLAG_PUBLIC_def Let_def)


text \<open>
  Claim C9. The tokenizer does read past the end of the input: the two scanning loops
  stop only at a white-space byte, and the buffer is not NUL-terminated. On an empty
  file the first loop reads past the end at once; on a line with an algorithm token
  and a base64 token and no white space after it, the second loop does. The same line
  followed by a newline is imported (\<open>import_file_with_newline\<close>).
\<close>

theorem ssh_pki_import_pubkey_file_overread:
  "ssh_pki_import_pubkey_file B (\<lambda>name. Content []) (Some ''id_dsa.pub'') = Inl OutOfBounds
   \<and> ssh_pki_import_pubkey_file B
        (\<lambda>name. Content ''ssh-dss AAAAB3NzaC1kc3MAAAABBwAAAAEDAAAAAQIAAAABBA=='')
        (Some ''id_dsa.pub'') = Inl OutOfBounds"
  by (simp add: ssh_pki_import_pubkey_file_def isspace_def ssh_string_to_char_def
      ssh_key_type_from_name_def)

section \<open>Round trip of a public key blob\<close>

lemma import_dss_fields:
  assumes "length p < 4294967296" "length q < 4294967296"
    "length g < 4294967296" "length y < 4294967296"
    and "key_new_ok B"
    and "pki_pubkey_build_dss B (Some p) (Some q) (Some g) (Some y) = Some d"
  shows "pki_import_pubkey_buffer B
           (ssh_string_mem p @ ssh_string_mem q @ ssh_string_mem g @ ssh_string_mem y)
           SSH_KEYTYPE_DSS =
         Some \<lparr>type = SSH_KEYTYPE_DSS, flags = SSH_KEY_FLAG_PUBLIC,
                type_c = Some ''ssh-dss'', dsa = Some d, rsa = None\<rparr>"
  using assms
  by (simp add: pki_import_pubkey_buffer_def ssh_key_new_def ssh_key_zero_def Let_def
      buffer_get_ssh_string_mem buffer_get_ssh_string_mem_last)

lemma import_rsa_fields:
  assumes "length e < 4294967296" "length n < 4294967296"
    and "key_new_ok B"
    and "pki_pubkey_build_rsa B (Some e) (Some n) = Some r"
    and "ty = SSH_KEYTYPE_RSA \<or> ty = SSH_KEYTYPE_RSA1"
  shows "pki_import_pubkey_buffer B (ssh_string_mem e @ ssh_string_mem n) ty =
         Some \<lparr>type = ty, flags = SSH_KEY_FLAG_PUBLIC,
                type_c = ssh_key_type_to_char ty, dsa = None, rsa = Some r\<rparr>"
  using assms
  by (auto simp: pki_import_pubkey_buffer_def ssh_key_new_def ssh_key_zero_def Let_def
      buffer_get_ssh_string_mem buffer_get_ssh_string_mem_last)

text \<open>
  Claim C5. For every validly constructed public key \<open>k\<close> of type DSS, RSA or RSA1,
  when the allocations succeed, exporting \<open>k\<close> gives a blob, importing that blob gives a
  key, and that key has the type, the display name and the public scalars (\<open>p, q, g, y\<close>
  or \<open>e, n\<close>) of \<open>k\<close>.
\<close>

theorem pubkey_blob_round_trip:
  assumes valid: "pubkey_valid B k"
    and alloc: "key_new_ok B" "buffer_new_ok B"
  shows "\<exists>blob k'. ssh_pki_export_pubkey_blob B (Some k) = Some blob
           \<and> ssh_pki_import_pubkey_blob B (Some blob) = Some k'
           \<and> type k' = type k
           \<and> type_c k' = type_c k
           \<and> public_fields B k' = public_fields B k
           \<and> public_fields B k' \<noteq> None"
proof (cases "type k")
  case SSH_KEYTYPE_DSS
  with valid obtain d where d: "dsa k = Some d" "dsa_rebuilds B d"
    and name: "type_c k = Some ''ssh-dss''"
    by (auto simp: pubkey_valid_def split: option.splits)
  obtain p q g y where flds: "dsa_public B d = (p, q, g, y)"
    by (cases "dsa_public B d") auto
  with d obtain d' where len: "length p < 4294967296" "length q < 4294967296"
      "length g < 4294967296" "length y < 4294967296"
    and build: "pki_pubkey_build_dss B (Some p) (Some q) (Some g) (Some y) = Some d'"
    and same: "dsa_public B d' = (p, q, g, y)"
    by (auto simp: dsa_rebuilds_def split: option.splits)
  let ?blob = "ssh_string_mem ''ssh-dss'' @ ssh_string_mem p @ ssh_string_mem q
                 @ ssh_string_mem g @ ssh_string_mem y"
  let ?k' = "\<lparr>type = SSH_KEYTYPE_DSS, flags = SSH_KEY_FLAG_PUBLIC,
               type_c = Some ''ssh-dss'', dsa = Some d', rsa = None\<rparr>"
  have export: "ssh_pki_export_pubkey_blob B (Some k) = Some ?blob"
    using SSH_KEYTYPE_DSS d flds
    by (simp add: ssh_pki_export_pubkey_blob_def pki_publickey_to_blob_def public_fields_def)
  have import: "ssh_pki_import_pubkey_blob B (Some ?blob) = Some ?k'"
    using alloc import_dss_fields [OF len alloc(1) build]
    by (simp add: ssh_pki_import_pubkey_blob_def buffer_get_ssh_string_mem tag_dss)
  have "public_fields B ?k' = public_fields B k" "public_fields B ?k' \<noteq> None"
    using SSH_KEYTYPE_DSS d flds same by (simp_all add: public_fields_def)
  with export import SSH_KEYTYPE_DSS name show ?thesis
    by (intro exI [of _ ?blob] exI [of _ ?k']) simp
next
  case SSH_KEYTYPE_RSA
  with valid obtain r where r: "rsa k = Some r" "rsa_rebuilds B r"
    and name: "type_c k = Some ''ssh-rsa''"
    by (auto simp: pubkey_valid_def split: option.splits)
  obtain e n where flds: "rsa_public B r = (e, n)"
    by (cases "rsa_public B r") auto
  with r obtain r' where len: "length e < 4294967296" "length n < 4294967296"
    and build: "pki_pubkey_build_rsa B (Some e) (Some n) = Some r'"
    and same: "rsa_public B r' = (e, n)"
    by (auto simp: rsa_rebuilds_def split: option.splits)
  let ?blob = "ssh_string_mem ''ssh-rsa'' @ ssh_string_mem e @ ssh_string_mem n"
  let ?k' = "\<lparr>type = SSH_KEYTYPE_RSA, flags = SSH_KEY_FLAG_PUBLIC,
               type_c = Some ''ssh-rsa'', dsa = None, rsa = Some r'\<rparr>"
  have export: "ssh_pki_export_pubkey_blob B (Some k) = Some ?blob"
    using SSH_KEYTYPE_RSA r flds
    by (simp add: ssh_pki_export_pubkey_blob_def pki_publickey_to_blob_def public_fields_def)
  have import: "ssh_pki_import_pubkey_blob B (Some ?blob) = Some ?k'"
    using alloc import_rsa_fields [OF len alloc(1) build, of SSH_KEYTYPE_RSA]
    by (simp add: ssh_pki_import_pubkey_blob_def buffer_get_ssh_string_mem tag_rsa)
  have "public_fields B ?k' = public_fields B k" "public_fields B ?k' \<noteq> None"
    using SSH_KEYTYPE_RSA r flds same by (simp_all add: public_fields_def)
  with export import SSH_KEYTYPE_RSA name show ?thesis
    by (intro exI [of _ ?blob] exI [of _ ?k']) simp
next
  case SSH_KEYTYPE_RSA1
  with valid obtain r where r: "rsa k = Some r" "rsa_rebuilds B r"
    and name: "type_c k = Some ''ssh-rsa1''"
    by (auto simp: pubkey_valid_def split: option.splits)
  obtain e n where flds: "rsa_public B r = (e, n)"
    by (cases "rsa_public B r") auto
  with r obtain r' where len: "length e < 4294967296" "length n < 4294967296"
    and build: "pki_pubkey_build_rsa B (Some e) (Some n) = Some r'"
    and same: "rsa_public B r' = (e, n)"
    by (auto simp: rsa_rebuilds_def split: option.splits)
  let ?blob = "ssh_string_mem ''ssh-rsa1'' @ ssh_string_mem e @ ssh_string_mem n"
  let ?k' = "\<lparr>type = SSH_KEYTYPE_RSA1, flags = SSH_KEY_FLAG_PUBLIC,
               type_c = Some ''ssh-rsa1'', dsa = None, rsa = Some r'\<rparr>"
  have export: "ssh_pki_export_pubkey_blob B (Some k) = Some ?blob"
    using SSH_KEYTYPE_RSA1 r flds
    by (simp add: ssh_pki_export_pubkey_blob_def pki_publickey_to_blob_def public_fields_def)
  have import: "ssh_pki_import_pubkey_blob B (Some ?blob) = Some ?k'"
    using alloc import_rsa_fields [OF len alloc(1) build, of SSH_KEYTYPE_RSA1]
    by (simp add: ssh_pki_import_pubkey_blob_def buffer_get_ssh_string_mem tag_rsa1)
  have "public_fields B ?k' = public_fields B k" "public_fields B ?k' \<noteq> None"
    using SSH_KEYTYPE_RSA1 r flds same by (simp_all add: public_fields_def)
  with export import SSH_KEYTYPE_RSA1 name show ?thesis
    by (intro exI [of _ ?blob] exI [of _ ?k']) simp
next
  case SSH_KEYTYPE_ECDSA
  with valid show ?thesis by (simp add: pubkey_valid_def)
next
  case SSH_KEYTYPE_UNKNOWN
  with valid show ?thesis by (simp add: pubkey_valid_def)
qed


theorem pubkey_blob_round_trip_witness:
  "pubkey_valid ref_backend
     \<lparr>type = SSH_KEYTYPE_DSS, flags = 1, type_c = Some ''ssh-dss'',
      dsa = Some ([CHR 0x07], [CHR 0x03], [CHR 0x02], [CHR 0x04]), rsa = None\<rparr>
   \<and> key_new_ok ref_backend \<and> buffer_new_ok ref_backend
   \<and> (\<exists>blob k'. ssh_pki_export_pubkey_blob ref_backend
          (Some \<lparr>type = SSH_KEYTYPE_DSS, flags = 1, type_c = Some ''ssh-dss'',
                  dsa = Some ([CHR 0x07], [CHR 0x03], [CHR 0x02], [CHR 0x04]), rsa = None\<rparr>)
          = Some blob
        \<and> ssh_pki_import_pubkey_blob ref_backend (Some blob) = Some k'
        \<and> type k' = SSH_KEYTYPE_DSS
        \<and> type_c k' = Some ''ssh-dss''
        \<and> public_fields ref_backend k' = Some [[CHR 0x07], [CHR 0x03], [CHR 0x02], [CHR 0x04]])"
proof -
  have valid: "pubkey_valid ref_backend
     \<lparr>type = SSH_KEYTYPE_DSS, flags = 1, type_c = Some ''ssh-dss'',
      dsa = Some ([CHR 0x07], [CHR 0x03], [CHR 0x02], [CHR 0x04]), rsa = None\<rparr>"
    by (simp add: pubkey_valid_def dsa_rebuilds_def ref_backend_def)
  have alloc: "key_new_ok ref_backend" "buffer_new_ok ref_backend"
    by (simp_all add: ref_backend_def)
  have flds: "public_fields ref_backend
     \<lparr>type = SSH_KEYTYPE_DSS, flags = 1, type_c = Some ''ssh-dss'',
      dsa = Some ([CHR 0x07], [CHR 0x03], [CHR 0x02], [CHR 0x04]), rsa = None\<rparr>
     = Some [[CHR 0x07], [CHR 0x03], [CHR 0x02], [CHR 0x04]]"
    by (simp add: public_fields_def ref_backend_def)
  from pubkey_blob_round_trip [OF valid alloc] valid alloc flds show ?thesis
    by auto
qed

end
